theory Spec2Isabelle
  imports Complex_Main "HOL-Library.Word"
begin

section \<open>Engine value types\<close>

text \<open>
  The Cosmos control sensor (\<^verbatim>\<open>CosmosControlSensor.h\<close>, \<^verbatim>\<open>CosmosControlSensor.cpp\<close>) works on
  engine vectors, colours and bounds. A C++ \<^verbatim>\<open>float\<close> is read as a real number: the
  properties below are about which quantities are compared, selected and handed to the
  drawing calls, not about rounding. A colour channel is a \<^verbatim>\<open>uint8\<close>.
\<close>

record FVector =
  X :: real
  Y :: real
  Z :: real

record FQuat =
  QX :: real
  QY :: real
  QZ :: real
  QW :: real

record FColor =
  R :: "8 word"
  G :: "8 word"
  B :: "8 word"
  A :: "8 word"

record FBoxSphereBounds =
  Origin :: FVector
  BoxExtent :: FVector
  SphereRadius :: real

definition MkVector :: "real \<Rightarrow> real \<Rightarrow> real \<Rightarrow> FVector" where
  "MkVector a b c = \<lparr>X = a, Y = b, Z = c\<rparr>"

definition MkColor :: "8 word \<Rightarrow> 8 word \<Rightarrow> 8 word \<Rightarrow> 8 word \<Rightarrow> FColor" where
  "MkColor r g b a = \<lparr>R = r, G = g, B = b, A = a\<rparr>"

definition vadd :: "FVector \<Rightarrow> FVector \<Rightarrow> FVector" where
  "vadd u v = \<lparr>X = X u + X v, Y = Y u + Y v, Z = Z u + Z v\<rparr>"

definition vsub :: "FVector \<Rightarrow> FVector \<Rightarrow> FVector" where
  "vsub u v = \<lparr>X = X u - X v, Y = Y u - Y v, Z = Z u - Z v\<rparr>"

definition vscale :: "real \<Rightarrow> FVector \<Rightarrow> FVector" where
  "vscale k v = \<lparr>X = k * X v, Y = k * Y v, Z = k * Z v\<rparr>"

definition vdot :: "FVector \<Rightarrow> FVector \<Rightarrow> real" where
  "vdot u v = X u * X v + Y u * Y v + Z u * Z v"

definition White :: FColor where
  "White = MkColor 255 255 255 255"

definition QuatIdentity :: FQuat where
  "QuatIdentity = \<lparr>QX = 0, QY = 0, QZ = 0, QW = 1\<rparr>"

section \<open>Render configuration and semantic tags\<close>

text \<open>\<^verbatim>\<open>ACosmosControlSensor::CosmosRenderConfig\<close>, with the defaults of the header.\<close>

record CosmosRenderConfig =
  RoadLineThickness :: real
  VehicleBoxThickness :: real
  PoleThickness :: real
  StopLineThickness :: real
  LaneLinesColor :: FColor
  RoadBoundariesColor :: FColor
  WaitLinesColor :: FColor
  CrosswalksColor :: FColor
  RoadMarkingsColor :: FColor
  TrafficSignsColor :: FColor
  TrafficLightsColor :: FColor
  CarsColor :: FColor
  TrucksColor :: FColor
  PedestriansColor :: FColor
  CyclistsColor :: FColor
  PolesColor :: FColor

definition DefaultRenderConfig :: CosmosRenderConfig where
  "DefaultRenderConfig =
     \<lparr>RoadLineThickness = 8, VehicleBoxThickness = 5, PoleThickness = 8,
      StopLineThickness = 8,
      LaneLinesColor = MkColor 98 183 249 255,
      RoadBoundariesColor = MkColor 200 36 35 255,
      WaitLinesColor = MkColor 185 63 34 255,
      CrosswalksColor = MkColor 206 131 63 255,
      RoadMarkingsColor = MkColor 126 204 205 255,
      TrafficSignsColor = MkColor 131 175 155 255,
      TrafficLightsColor = MkColor 252 157 155 255,
      CarsColor = MkColor 255 0 0 255,
      TrucksColor = MkColor 0 0 255 255,
      PedestriansColor = MkColor 0 255 0 255,
      CyclistsColor = MkColor 255 255 0 255,
      PolesColor = MkColor 66 40 144 255\<rparr>"

text \<open>
  \<^verbatim>\<open>carla::rpc::CityObjectLabel\<close> is declared outside these sources. The constructors are
  the labels the sensor names; \<open>OtherLabel n\<close> stands for every other value of the
  enumeration (\<open>n\<close> its underlying byte).
\<close>

datatype CityObjectLabel =
    TrafficLight | TrafficSigns | Poles | Car | Bus | Motorcycle | Train | Truck
  | Bicycle | Pedestrians | OtherLabel "8 word"

fun GetColorByTag :: "CosmosRenderConfig \<Rightarrow> CityObjectLabel \<Rightarrow> FColor" where
  "GetColorByTag cfg TrafficLight = TrafficLightsColor cfg"
| "GetColorByTag cfg TrafficSigns = TrafficSignsColor cfg"
| "GetColorByTag cfg Poles = PolesColor cfg"
| "GetColorByTag cfg Car = CarsColor cfg"
| "GetColorByTag cfg Bus = CarsColor cfg"
| "GetColorByTag cfg Motorcycle = CarsColor cfg"
| "GetColorByTag cfg Train = CarsColor cfg"
| "GetColorByTag cfg Truck = TrucksColor cfg"
| "GetColorByTag cfg Bicycle = CyclistsColor cfg"
| "GetColorByTag cfg Pedestrians = PedestriansColor cfg"
| "GetColorByTag cfg (OtherLabel n) = White"

section \<open>Loading the configuration file\<close>

text \<open>
  \<^verbatim>\<open>LoadConfigFromFile\<close> reads \<^verbatim>\<open>CosmosControlConfig.json\<close> through the engine's JSON
  library, which is not part of these sources. A parsed object is a list of fields with
  distinct keys. What the library returns where the sensor does not check is a
  parameter of the model:
  \<^item> \<open>NonNumber v\<close>: \<^verbatim>\<open>AsNumber()\<close> of a value \<open>v\<close> that is not a JSON number
    (\<^verbatim>\<open>GetNumberField\<close> of an absent key is \<^verbatim>\<open>AsNumber()\<close> of the null value; the engine
    logs an error and yields \<open>0.0\<close>);
  \<^item> \<open>NoObject\<close>: \<^verbatim>\<open>GetObjectField\<close> of a key that is absent or not an object
    (\<open>None\<close> is an invalid pointer);
  \<^item> \<open>ToUInt8\<close>: the conversion of a \<^verbatim>\<open>double\<close> to a colour channel.
\<close>

datatype FJsonValue =
    JsonNull
  | JsonBoolean bool
  | JsonNumber real
  | JsonString string
  | JsonArray "FJsonValue list"
  | JsonObject "(string \<times> FJsonValue) list"

type_synonym FJsonObject = "(string \<times> FJsonValue) list"

record json_library =
  NonNumber :: "FJsonValue \<Rightarrow> real"
  NoObject :: "FJsonObject option"
  ToUInt8 :: "real \<Rightarrow> 8 word"

datatype config_file =
    FileNotFound
  | LoadFileFailed
  | DeserializeFailed
  | Deserialized FJsonObject

definition AsNumber :: "json_library \<Rightarrow> FJsonValue \<Rightarrow> real" where
  "AsNumber J v = (case v of JsonNumber n \<Rightarrow> n | _ \<Rightarrow> NonNumber J v)"

definition GetNumberField :: "json_library \<Rightarrow> FJsonObject \<Rightarrow> string \<Rightarrow> real" where
  "GetNumberField J obj key =
     (case map_of obj key of Some v \<Rightarrow> AsNumber J v | None \<Rightarrow> AsNumber J JsonNull)"

definition GetObjectField :: "json_library \<Rightarrow> FJsonObject \<Rightarrow> string \<Rightarrow> FJsonObject option" where
  "GetObjectField J obj key =
     (case map_of obj key of Some (JsonObject members) \<Rightarrow> Some members | _ \<Rightarrow> NoObject J)"

definition TryGetArrayField :: "FJsonObject \<Rightarrow> string \<Rightarrow> FJsonValue list option" where
  "TryGetArrayField obj key =
     (case map_of obj key of Some (JsonArray vs) \<Rightarrow> Some vs | _ \<Rightarrow> None)"

text \<open>The lambda \<^verbatim>\<open>LoadColor\<close>: the colour is replaced only by an array of three values.\<close>

definition LoadColor :: "json_library \<Rightarrow> FJsonObject \<Rightarrow> string \<Rightarrow> FColor \<Rightarrow> FColor" where
  "LoadColor J Colors key color =
     (case TryGetArrayField Colors key of
        Some ColorArray \<Rightarrow>
          if length ColorArray = 3
          then MkColor (ToUInt8 J (AsNumber J (ColorArray ! 0)))
                       (ToUInt8 J (AsNumber J (ColorArray ! 1)))
                       (ToUInt8 J (AsNumber J (ColorArray ! 2))) 255
          else color
      | None \<Rightarrow> color)"

definition LoadThickness :: "json_library \<Rightarrow> FJsonObject \<Rightarrow> CosmosRenderConfig \<Rightarrow> CosmosRenderConfig" where
  "LoadThickness J Thickness cfg =
     cfg\<lparr>RoadLineThickness := GetNumberField J Thickness ''road_lines'',
         VehicleBoxThickness := GetNumberField J Thickness ''vehicle_boxes'',
         PoleThickness := GetNumberField J Thickness ''poles'',
         StopLineThickness := GetNumberField J Thickness ''stop_lines''\<rparr>"

definition LoadColors :: "json_library \<Rightarrow> FJsonObject \<Rightarrow> CosmosRenderConfig \<Rightarrow> CosmosRenderConfig" where
  "LoadColors J Colors cfg =
     cfg\<lparr>LaneLinesColor := LoadColor J Colors ''lane_lines'' (LaneLinesColor cfg),
         RoadBoundariesColor := LoadColor J Colors ''road_boundaries'' (RoadBoundariesColor cfg),
         CrosswalksColor := LoadColor J Colors ''crosswalks'' (CrosswalksColor cfg),
         RoadMarkingsColor := LoadColor J Colors ''road_markings'' (RoadMarkingsColor cfg),
         TrafficSignsColor := LoadColor J Colors ''traffic_signs'' (TrafficSignsColor cfg),
         TrafficLightsColor := LoadColor J Colors ''traffic_lights'' (TrafficLightsColor cfg),
         CarsColor := LoadColor J Colors ''cars'' (CarsColor cfg),
         TrucksColor := LoadColor J Colors ''trucks'' (TrucksColor cfg),
         PedestriansColor := LoadColor J Colors ''pedestrians'' (PedestriansColor cfg),
         CyclistsColor := LoadColor J Colors ''cyclists'' (CyclistsColor cfg),
         PolesColor := LoadColor J Colors ''poles'' (PolesColor cfg)\<rparr>"

definition LoadConfigFromFile :: "json_library \<Rightarrow> config_file \<Rightarrow> CosmosRenderConfig \<Rightarrow> CosmosRenderConfig" where
  "LoadConfigFromFile J file cfg =
     (case file of
        Deserialized JsonObject' \<Rightarrow>
          (case GetObjectField J JsonObject' ''CosmosControlVisualization'' of
             None \<Rightarrow> cfg
           | Some Config \<Rightarrow>
               (let cfg1 = (case GetObjectField J Config ''LineThickness'' of
                              Some Thickness \<Rightarrow> LoadThickness J Thickness cfg
                            | None \<Rightarrow> cfg)
                in case GetObjectField J Config ''Colors'' of
                     Some Colors \<Rightarrow> LoadColors J Colors cfg1
                   | None \<Rightarrow> cfg1))
      | _ \<Rightarrow> cfg)"

section \<open>Drawing calls and the two line batches\<close>

text \<open>
  Each constructor records one call of the sensor's own \<^verbatim>\<open>DrawDebug...\<close> function with
  the arguments that vary (the depth priority is the constant \<^verbatim>\<open>SDPG_World\<close> and the
  life time is ignored by every one of them). The Boolean is \<^verbatim>\<open>bPersistentLines\<close>.
\<close>

datatype draw_call =
    DebugLine FVector FVector FColor bool real
  | DebugSolidBox FVector FVector FQuat FColor bool
  | DebugBox FVector FVector FQuat FColor bool real
  | DebugCapsule FVector real real FQuat FColor bool real
  | DebugMesh "FVector list" "int list" FColor bool

fun bPersistentLines :: "draw_call \<Rightarrow> bool" where
  "bPersistentLines (DebugLine p q c pers th) = pers"
| "bPersistentLines (DebugSolidBox c e q col pers) = pers"
| "bPersistentLines (DebugBox c e q col pers th) = pers"
| "bPersistentLines (DebugCapsule c h r q col pers th) = pers"
| "bPersistentLines (DebugMesh vs is col pers) = pers"

section \<open>Crosswalk polygons\<close>

text \<open>
  \<^verbatim>\<open>carla::geom::Location\<close> has three float coordinates and is compared component-wise.
  \<open>conv\<close> stands for \<^verbatim>\<open>p.ToFVector() * 100.0f\<close>; \<^verbatim>\<open>ToFVector\<close> belongs to LibCarla.
\<close>

datatype Location = Location real real real

text \<open>The inner loop \<^verbatim>\<open>for (int j = 1; j < current_polygon.Num() - 1; ++j)\<close>.\<close>

definition TriangleFan :: "nat \<Rightarrow> int list" where
  "TriangleFan n = concat (map (\<lambda>j. [0, int j, int j + 1]) [1..<n - 1])"

definition ClosePolygon :: "FVector list \<Rightarrow> (FVector list \<times> int list) list" where
  "ClosePolygon current_polygon =
     (if 3 \<le> length current_polygon
      then [(current_polygon, TriangleFan (length current_polygon))] else [])"

text \<open>
  The loop over \<^verbatim>\<open>crosswalks_points[1..]\<close>, returning the meshes handed to
  \<^verbatim>\<open>DrawDebugMesh\<close> in order. After a closing point the next point, if there is one,
  becomes \<^verbatim>\<open>first_in_loop\<close> and is skipped by \<^verbatim>\<open>++i\<close>.
\<close>

fun CrosswalkLoop ::
  "(Location \<Rightarrow> FVector) \<Rightarrow> Location \<Rightarrow> FVector list \<Rightarrow> Location list
     \<Rightarrow> (FVector list \<times> int list) list" where
  "CrosswalkLoop conv first_in_loop current_polygon [] = []"
| "CrosswalkLoop conv first_in_loop current_polygon (p # ps) =
     (if p = first_in_loop
      then ClosePolygon current_polygon @
           (case ps of [] \<Rightarrow> [] | q # qs \<Rightarrow> CrosswalkLoop conv q [conv q] qs)
      else CrosswalkLoop conv first_in_loop (current_polygon @ [conv p]) ps)"

definition CrosswalkPolygons ::
  "(Location \<Rightarrow> FVector) \<Rightarrow> Location list \<Rightarrow> (FVector list \<times> int list) list" where
  "CrosswalkPolygons conv crosswalks_points =
     (case crosswalks_points of
        [] \<Rightarrow> []
      | p # ps \<Rightarrow> CrosswalkLoop conv p [conv p] ps)"

section \<open>Stop lines\<close>

text \<open>
  A traffic light is seen through \<^verbatim>\<open>GetComponentByClass(UBoxComponent::StaticClass())\<close>
  only; \<open>None\<close> is the null pointer the cast yields when the actor has no box component.
\<close>

record UBoxComponent =
  BoxLocation :: FVector
  ScaledBoxExtent :: FVector
  ForwardVector :: FVector
  RightVector :: FVector

record ATrafficLightBase =
  TrafficLightRef :: nat
  BoxComponent :: "UBoxComponent option"

datatype error = NullDereference

definition StopLine :: "CosmosRenderConfig \<Rightarrow> UBoxComponent \<Rightarrow> draw_call" where
  "StopLine cfg stop_box_collider =
     (let stopLineOffset = StopLineThickness cfg * 0.5 + 2;
          base_pos = MkVector (X (BoxLocation stop_box_collider))
                              (Y (BoxLocation stop_box_collider)) (- stopLineOffset);
          line_start =
            vsub (vadd base_pos (vscale (- X (ScaledBoxExtent stop_box_collider))
                                        (ForwardVector stop_box_collider)))
                 (vscale 710 (RightVector stop_box_collider));
          line_end =
            vsub (vadd base_pos (vscale (X (ScaledBoxExtent stop_box_collider))
                                        (ForwardVector stop_box_collider)))
                 (vscale 710 (RightVector stop_box_collider))
      in DebugLine line_start line_end (WaitLinesColor cfg) True (StopLineThickness cfg))"

text \<open>
  The loop over the traffic lights. The collider is used without a null check, so a
  light without a box component ends the run in a null dereference.
\<close>

fun StopLinesLoop :: "CosmosRenderConfig \<Rightarrow> ATrafficLightBase list \<Rightarrow> error + draw_call list" where
  "StopLinesLoop cfg [] = Inr []"
| "StopLinesLoop cfg (traffic_light # rest) =
     (case BoxComponent traffic_light of
        None \<Rightarrow> Inl NullDereference
      | Some stop_box_collider \<Rightarrow>
          (case StopLinesLoop cfg rest of
             Inl e \<Rightarrow> Inl e
           | Inr calls \<Rightarrow> Inr (StopLine cfg stop_box_collider # calls)))"

section \<open>Road splines\<close>

text \<open>
  Modelled from the spec: \<^verbatim>\<open>ARoadSpline\<close> and its two enumerations are declared in
  \<^verbatim>\<open>RoadSpline.h\<close>, which is not among these sources. The spec gives a spline a road id,
  a lane id, a boundary kind in {Driving, Shoulder, Sidewalk, Median, Other}, an
  orientation in {Left, Right} and a junction flag; \<open>SplinePoints\<close> are the world
  locations of the spline points. Road and lane ids are \<^verbatim>\<open>int32\<close> (the sensor keys
  \<^verbatim>\<open>SplinesByRoadId\<close> by \<^verbatim>\<open>int32\<close>): 32-bit words read as signed by \<open>sint\<close>. The sums
  and products of lane ids wrap around in two's complement, which is what the compiled
  code yields where C++ leaves signed overflow undefined.
\<close>

datatype ERoadSplineBoundaryType = Driving | Shoulder | Sidewalk | Median | OtherBoundary

datatype ERoadSplineOrientationType = Left | Right

record ARoadSpline =
  RoadID :: "32 word"
  LaneID :: "32 word"
  BoundaryType :: ERoadSplineBoundaryType
  OrientationType :: ERoadSplineOrientationType
  bIsJunction :: bool
  SplinePoints :: "FVector list"

text \<open>The lane id the predicate of \<^verbatim>\<open>FilterByPredicate\<close> compares with.\<close>

definition NeighbourLaneID :: "ARoadSpline \<Rightarrow> 32 word" where
  "NeighbourLaneID spline =
     LaneID spline +
       (if OrientationType spline = Left
        then (if LaneID spline = 1 then - 2 else - 1)
        else (if LaneID spline = - 1 then 2 else 1))"

definition found_splines :: "ARoadSpline list \<Rightarrow> ARoadSpline \<Rightarrow> ARoadSpline list" where
  "found_splines splines spline =
     filter (\<lambda>in_spline. LaneID in_spline = NeighbourLaneID spline) splines"

text \<open>
  One iteration of each of the three loops over \<open>found_splines\<close>: the new value of
  \<^verbatim>\<open>should_render\<close> from the target spline and the old value.
\<close>

definition JunctionRule :: "ARoadSpline \<Rightarrow> ARoadSpline \<Rightarrow> bool \<Rightarrow> bool" where
  "JunctionRule spline target_spline should_render =
     (let own = (if BoundaryType spline = Driving then False
                 else if BoundaryType spline = Shoulder then False
                 else if BoundaryType spline = Sidewalk then True
                 else if BoundaryType spline = Median then True
                 else should_render)
      in case BoundaryType target_spline of
           Driving \<Rightarrow> own
         | Shoulder \<Rightarrow> own
         | _ \<Rightarrow> False)"

definition LeftRule :: "ARoadSpline \<Rightarrow> ARoadSpline \<Rightarrow> bool \<Rightarrow> bool" where
  "LeftRule spline target_spline should_render =
     (let same_side = (sint (LaneID spline) > 0 \<and>
                       sint (LaneID spline * LaneID target_spline) > 0)
      in case BoundaryType target_spline of
           Driving \<Rightarrow>
             (if BoundaryType spline = Driving then same_side
              else if BoundaryType spline = Shoulder then False
              else if BoundaryType spline = Sidewalk then same_side
              else if BoundaryType spline = Median then True
              else should_render)
         | Shoulder \<Rightarrow>
             (if BoundaryType spline = Driving then False
              else if BoundaryType spline = Shoulder then False
              else if BoundaryType spline = Sidewalk then same_side
              else if BoundaryType spline = Median then True
              else should_render)
         | _ \<Rightarrow> False)"

definition RightRule :: "ARoadSpline \<Rightarrow> ARoadSpline \<Rightarrow> bool \<Rightarrow> bool" where
  "RightRule spline target_spline should_render =
     (case BoundaryType target_spline of
        Driving \<Rightarrow>
          (if BoundaryType spline = Driving then sint (LaneID spline) < 0
           else if BoundaryType spline = Shoulder then False
           else if BoundaryType spline = Sidewalk then sint (LaneID spline) < 0
           else if BoundaryType spline = Median then True
           else should_render)
      | Shoulder \<Rightarrow>
          (if BoundaryType spline = Driving then False
           else if BoundaryType spline = Shoulder then False
           else if BoundaryType spline = Sidewalk then sint (LaneID spline) < 0
           else if BoundaryType spline = Median then True
           else should_render)
      | _ \<Rightarrow> False)"

text \<open>
  The value of \<^verbatim>\<open>should_render\<close> for \<open>spline\<close> among the splines of its road: it starts
  false and every found spline, in order, overwrites it.
\<close>

definition ShouldRender :: "ARoadSpline list \<Rightarrow> ARoadSpline \<Rightarrow> bool" where
  "ShouldRender splines spline =
     (if bIsJunction spline
      then fold (JunctionRule spline) (found_splines splines spline) False
      else if OrientationType spline = Left
      then fold (LeftRule spline) (found_splines splines spline) False
      else if OrientationType spline = Right
      then fold (RightRule spline) (found_splines splines spline) False
      else False)"

definition DrawSpline :: "CosmosRenderConfig \<Rightarrow> ARoadSpline \<Rightarrow> draw_call list" where
  "DrawSpline cfg spline =
     (let numPoints = length (SplinePoints spline);
          offset = RoadLineThickness cfg;
          lineColor = (if BoundaryType spline \<noteq> Driving
                       then RoadBoundariesColor cfg else LaneLinesColor cfg);
          lower = (\<lambda>p. p\<lparr>Z := Z p - offset\<rparr>)
      in if numPoints < 2 then []
         else map (\<lambda>i. DebugLine (lower (SplinePoints spline ! i))
                                 (lower (SplinePoints spline ! (i + 1)))
                                 lineColor True (RoadLineThickness cfg))
                  [0..<numPoints - 1])"

text \<open>\<^verbatim>\<open>SplinesByRoadId\<close>: a \<^verbatim>\<open>TMap\<close> filled in the order of the actors, read in that order.\<close>

fun AddSpline ::
  "ARoadSpline \<Rightarrow> (32 word \<times> ARoadSpline list) list \<Rightarrow> (32 word \<times> ARoadSpline list) list" where
  "AddSpline spline [] = [(RoadID spline, [spline])]"
| "AddSpline spline ((road, splines) # rest) =
     (if road = RoadID spline then (road, splines @ [spline]) # rest
      else (road, splines) # AddSpline spline rest)"

definition SplinesByRoadId :: "ARoadSpline list \<Rightarrow> (32 word \<times> ARoadSpline list) list" where
  "SplinesByRoadId RoadSplines = fold AddSpline RoadSplines []"

definition DrawRoad :: "CosmosRenderConfig \<Rightarrow> ARoadSpline list \<Rightarrow> draw_call list" where
  "DrawRoad cfg splines =
     concat (map (\<lambda>spline.
        if BoundaryType spline \<noteq> Driving \<and> BoundaryType spline \<noteq> Shoulder \<and>
           BoundaryType spline \<noteq> Sidewalk \<and> BoundaryType spline \<noteq> Median then []
        else if ShouldRender splines spline then DrawSpline cfg spline else []) splines)"

definition DrawRouteLines :: "CosmosRenderConfig \<Rightarrow> ARoadSpline list \<Rightarrow> draw_call list" where
  "DrawRouteLines cfg RoadSplines =
     concat (map (\<lambda>splines_pair. DrawRoad cfg (snd splines_pair)) (SplinesByRoadId RoadSplines))"

section \<open>Stencils\<close>

text \<open>
  A stencil of the map: its transform (location and rotation), width and length. A null
  entry of the stencil table is \<open>None\<close>. \<open>RotateVector\<close> stands for the engine's
  \<^verbatim>\<open>FQuat::RotateVector\<close>.
\<close>

record Stencil =
  StencilLocation :: FVector
  StencilRotation :: FQuat
  GetWidth :: real
  GetLength :: real

definition DrawStencil ::
  "(FQuat \<Rightarrow> FVector \<Rightarrow> FVector) \<Rightarrow> CosmosRenderConfig \<Rightarrow> Stencil \<Rightarrow> draw_call" where
  "DrawStencil RotateVector cfg stencil =
     (let StencilWidth = GetWidth stencil * 100;
          StencilLength = GetLength stencil * 100;
          corner = (\<lambda>a b. vadd (StencilLocation stencil)
                               (RotateVector (StencilRotation stencil) (MkVector a b 0)))
      in DebugMesh [corner (- StencilLength / 2) (- StencilWidth / 2),
                    corner (StencilLength / 2) (- StencilWidth / 2),
                    corner (StencilLength / 2) (StencilWidth / 2),
                    corner (- StencilLength / 2) (StencilWidth / 2)]
                   [0, 1, 2, 0, 2, 3] (RoadMarkingsColor cfg) True)"

definition DrawStencils ::
  "(FQuat \<Rightarrow> FVector \<Rightarrow> FVector) \<Rightarrow> CosmosRenderConfig \<Rightarrow> Stencil option list \<Rightarrow> draw_call list" where
  "DrawStencils RotateVector cfg road_stencils =
     concat (map (\<lambda>entry. case entry of None \<Rightarrow> [] | Some stencil \<Rightarrow> [DrawStencil RotateVector cfg stencil])
                 road_stencils)"

section \<open>Dynamic objects\<close>

text \<open>
  What the loop over the mesh components reads of a component, of its owner and of the
  actor registry. Actors are compared by reference (\<open>ActorRef\<close>). \<open>MeshClass\<close> is the
  outcome of the two casts: a static mesh component with its mesh asset's bounds (or no
  asset), a skeletal one likewise, or neither. \<open>Contains\<close> stands for the engine's
  \<^verbatim>\<open>FString::Contains\<close>.

  Modelled from the spec: \<^verbatim>\<open>FCarlaActor\<close>, the actor registry and
  \<^verbatim>\<open>UCarlaEpisode::FindCarlaActor\<close> are not among these sources; the registry is the list
  of the simulated-actor wrappers, and \<open>FindCarlaActor\<close> finds the wrapper of a given
  engine actor.
\<close>

record AActor =
  ActorRef :: nat
  ActorBoundsOrigin :: FVector
  ActorBoundsExtent :: FVector
  ActorRotation :: FQuat

record FCarlaActor =
  ActorId :: nat
  role_name :: "string option"
  DescriptionId :: string
  GetActor :: "nat option"

datatype mesh_class =
    StaticMeshComponent "FBoxSphereBounds option"
  | SkeletalMeshComponent "FBoxSphereBounds option"
  | OtherMeshComponent

record UMeshComponent =
  IsVisible :: bool
  GetOwner :: "AActor option"
  ComponentLocation :: FVector
  ComponentTag :: CityObjectLabel
  ComponentName :: string
  MeshClass :: mesh_class

fun FindPlayerActor :: "(string \<Rightarrow> string \<Rightarrow> bool) \<Rightarrow> FCarlaActor list \<Rightarrow> nat option" where
  "FindPlayerActor Contains [] = None"
| "FindPlayerActor Contains (actor # rest) =
     (case role_name actor of
        Some v \<Rightarrow>
          if Contains v ''hero'' \<or> Contains v ''ego_vehicle'' then GetActor actor
          else FindPlayerActor Contains rest
      | None \<Rightarrow> FindPlayerActor Contains rest)"

definition FindCarlaActor :: "FCarlaActor list \<Rightarrow> AActor \<Rightarrow> FCarlaActor option" where
  "FindCarlaActor registry actor = find (\<lambda>c. GetActor c = Some (ActorRef actor)) registry"

text \<open>
  The bounds derived for a component from its mesh asset; \<open>None\<close> is the
  \<^verbatim>\<open>continue\<close> of a component that is skipped.
\<close>

definition DerivedBounds ::
  "(string \<Rightarrow> string \<Rightarrow> bool) \<Rightarrow> UMeshComponent \<Rightarrow> FVector \<Rightarrow> FVector \<Rightarrow> FBoxSphereBounds option" where
  "DerivedBounds Contains mesh_component box_origin box_extent =
     (let bounds = \<lparr>Origin = box_origin, BoxExtent = box_extent, SphereRadius = 0\<rparr>
      in case MeshClass mesh_component of
           OtherMeshComponent \<Rightarrow> None
         | StaticMeshComponent asset \<Rightarrow>
             (case asset of
                None \<Rightarrow> Some bounds
              | Some mesh_bounds \<Rightarrow>
                  if \<not> Contains (ComponentName mesh_component) ''mesh'' \<or>
                     Contains (ComponentName mesh_component) ''road''
                  then None
                  else Some (mesh_bounds\<lparr>Origin := box_origin\<rparr>))
         | SkeletalMeshComponent asset \<Rightarrow>
             (case asset of
                None \<Rightarrow> Some bounds
              | Some mesh_bounds \<Rightarrow>
                  Some (mesh_bounds
                    \<lparr>Origin := (ComponentLocation mesh_component)
                       \<lparr>Z := Z (ComponentLocation mesh_component) + Z (BoxExtent mesh_bounds)\<rparr>\<rparr>)))"

text \<open>The dispatch on the tag, with the pole capsule of lines 289 to 294.\<close>

definition DrawByTag ::
  "CosmosRenderConfig \<Rightarrow> UMeshComponent \<Rightarrow> AActor \<Rightarrow> FBoxSphereBounds \<Rightarrow> FVector \<Rightarrow> draw_call list" where
  "DrawByTag cfg mesh_component owner bounds box_extent =
     (let Tag = ComponentTag mesh_component;
          vis_color = GetColorByTag cfg Tag
      in if Tag = TrafficLight \<or> Tag = TrafficSigns
         then [DebugSolidBox (ComponentLocation mesh_component) (BoxExtent bounds)
                 (ActorRotation owner) vis_color False]
         else if Tag = Car \<or> Tag = Bicycle \<or> Tag = Bus \<or> Tag = Motorcycle \<or>
                 Tag = Pedestrians \<or> Tag = Train \<or> Tag = Truck
         then [DebugBox (Origin bounds) (BoxExtent bounds) (ActorRotation owner) vis_color
                 False (VehicleBoxThickness cfg)]
         else if Tag = Poles
         then (let half_height = max (Z (BoxExtent bounds)) (Z box_extent);
                   distance_to_road = Z (ComponentLocation mesh_component)
               in [DebugCapsule
                     (vadd (ComponentLocation mesh_component) (MkVector 0 0 half_height))
                     (half_height + (if distance_to_road > 250 then 0 else distance_to_road))
                     0.1 QuatIdentity vis_color False (PoleThickness cfg)])
         else [])"

definition AnnotateComponent ::
  "(string \<Rightarrow> string \<Rightarrow> bool) \<Rightarrow> CosmosRenderConfig \<Rightarrow> nat list \<Rightarrow> FCarlaActor list \<Rightarrow> nat option
     \<Rightarrow> UMeshComponent \<Rightarrow> draw_call list" where
  "AnnotateComponent Contains cfg IgnoredVehicles registry player_actor mesh_component =
     (if \<not> IsVisible mesh_component then []
      else case GetOwner mesh_component of
        None \<Rightarrow> []
      | Some owner \<Rightarrow>
          if Some (ActorRef owner) = player_actor then []
          else if (case FindCarlaActor registry owner of
                     Some CarlaActor \<Rightarrow>
                       Contains (DescriptionId CarlaActor) ''vehicle'' \<and>
                       ActorId CarlaActor \<in> set IgnoredVehicles
                   | None \<Rightarrow> False) then []
          else if Z (ComponentLocation mesh_component) > 10000 then []
          else (case DerivedBounds Contains mesh_component
                       (ActorBoundsOrigin owner) (ActorBoundsExtent owner) of
                  None \<Rightarrow> []
                | Some bounds \<Rightarrow>
                    DrawByTag cfg mesh_component owner bounds (ActorBoundsExtent owner)))"

section \<open>The sensor and its tick\<close>

text \<open>
  The sensor's own state, and what one call of \<^verbatim>\<open>PostPhysTick\<close> reads of the world.
  \<open>DedicatedServer\<close> is \<^verbatim>\<open>GEngine->GetNetMode(World) == NM_DedicatedServer\<close>;
  \<open>carla_game_mode\<close> is \<open>None\<close> when the cast of the game mode yields null. The three
  engine functions that are not part of these sources are parameters.
\<close>

record ACarlaGameModeBase =
  GetAllCrosswalkZones :: "Location list"
  GetStencils :: "Stencil option list"

record ACosmosControlSensor =
  added_persisted_stop_lines :: bool
  added_persisted_route_lines :: bool
  added_persisted_crosswalks :: bool
  added_persisted_stencils :: bool
  RenderConfig :: CosmosRenderConfig
  IgnoredVehicles :: "nat list"
  DynamicLines :: "draw_call list"
  PersistentLines :: "draw_call list"

record UWorld =
  DedicatedServer :: bool
  ActorRegistry :: "FCarlaActor list"
  MeshComponents :: "UMeshComponent list"
  TrafficLights :: "ATrafficLightBase list"
  RoadSplines :: "ARoadSpline list"
  carla_game_mode :: "ACarlaGameModeBase option"

record engine =
  Contains :: "string \<Rightarrow> string \<Rightarrow> bool"
  ToFVector :: "Location \<Rightarrow> FVector"
  RotateVector :: "FQuat \<Rightarrow> FVector \<Rightarrow> FVector"

text \<open>The constructor, followed by \<^verbatim>\<open>Set\<close>, which loads the configuration.\<close>

definition NewSensor :: "json_library \<Rightarrow> config_file \<Rightarrow> ACosmosControlSensor" where
  "NewSensor J file =
     \<lparr>added_persisted_stop_lines = False, added_persisted_route_lines = False,
      added_persisted_crosswalks = False, added_persisted_stencils = False,
      RenderConfig = LoadConfigFromFile J file DefaultRenderConfig,
      IgnoredVehicles = [], DynamicLines = [], PersistentLines = []\<rparr>"

text \<open>
  Every \<^verbatim>\<open>DrawDebug...\<close> function does nothing on a dedicated server and otherwise
  appends to the batch \<^verbatim>\<open>GetDebugLineBatcher\<close> selects.
\<close>

definition Draw :: "UWorld \<Rightarrow> draw_call \<Rightarrow> ACosmosControlSensor \<Rightarrow> ACosmosControlSensor" where
  "Draw World call sensor =
     (if DedicatedServer World then sensor
      else if bPersistentLines call
      then sensor\<lparr>PersistentLines := PersistentLines sensor @ [call]\<rparr>
      else sensor\<lparr>DynamicLines := DynamicLines sensor @ [call]\<rparr>)"

definition DynamicObjects :: "engine \<Rightarrow> UWorld \<Rightarrow> ACosmosControlSensor \<Rightarrow> ACosmosControlSensor" where
  "DynamicObjects E World sensor =
     (let player_actor = FindPlayerActor (Contains E) (ActorRegistry World)
      in fold (Draw World)
           (concat (map (AnnotateComponent (Contains E) (RenderConfig sensor)
                           (IgnoredVehicles sensor) (ActorRegistry World) player_actor)
                        (MeshComponents World)))
           sensor)"

definition StopLines :: "UWorld \<Rightarrow> ACosmosControlSensor \<Rightarrow> error + ACosmosControlSensor" where
  "StopLines World sensor =
     (if \<not> added_persisted_stop_lines sensor
      then (case StopLinesLoop (RenderConfig sensor) (TrafficLights World) of
              Inl e \<Rightarrow> Inl e
            | Inr calls \<Rightarrow>
                Inr (fold (Draw World) calls (sensor\<lparr>added_persisted_stop_lines := True\<rparr>)))
      else Inr sensor)"

definition RouteLines :: "UWorld \<Rightarrow> ACosmosControlSensor \<Rightarrow> ACosmosControlSensor" where
  "RouteLines World sensor =
     (if \<not> added_persisted_route_lines sensor
      then fold (Draw World) (DrawRouteLines (RenderConfig sensor) (RoadSplines World))
             (if length (RoadSplines World) > 0
              then sensor\<lparr>added_persisted_route_lines := True\<rparr> else sensor)
      else sensor)"

definition Crosswalks :: "engine \<Rightarrow> UWorld \<Rightarrow> ACosmosControlSensor \<Rightarrow> ACosmosControlSensor" where
  "Crosswalks E World sensor =
     (case carla_game_mode World of
        None \<Rightarrow> sensor
      | Some game_mode \<Rightarrow>
          if \<not> added_persisted_crosswalks sensor
          then fold (Draw World)
                 (map (\<lambda>mesh. DebugMesh (fst mesh) (snd mesh)
                               (CrosswalksColor (RenderConfig sensor)) True)
                      (CrosswalkPolygons (\<lambda>p. vscale 100 (ToFVector E p))
                         (GetAllCrosswalkZones game_mode)))
                 (sensor\<lparr>added_persisted_crosswalks := True\<rparr>)
          else sensor)"

definition Stencils :: "engine \<Rightarrow> UWorld \<Rightarrow> ACosmosControlSensor \<Rightarrow> ACosmosControlSensor" where
  "Stencils E World sensor =
     (case carla_game_mode World of
        None \<Rightarrow> sensor
      | Some game_mode \<Rightarrow>
          if \<not> added_persisted_stencils sensor
          then fold (Draw World)
                 (DrawStencils (RotateVector E) (RenderConfig sensor) (GetStencils game_mode))
                 (sensor\<lparr>added_persisted_stencils := True\<rparr>)
          else sensor)"

text \<open>
  \<^verbatim>\<open>PostPhysTick\<close>: the dynamic batch is flushed, the dynamic objects are drawn, then the
  four one-time annotators run in their order. The pixel read-back at the end leaves the
  sensor's state alone and is left out.
\<close>

definition PostPhysTick :: "engine \<Rightarrow> UWorld \<Rightarrow> ACosmosControlSensor \<Rightarrow> error + ACosmosControlSensor" where
  "PostPhysTick E World sensor =
     (case StopLines World (DynamicObjects E World (sensor\<lparr>DynamicLines := []\<rparr>)) of
        Inl e \<Rightarrow> Inl e
      | Inr sensor' \<Rightarrow> Inr (Stencils E World (Crosswalks E World (RouteLines World sensor'))))"

text \<open>A run of the sensor over the worlds of successive ticks; a failed tick ends it.\<close>

fun RunTicks :: "engine \<Rightarrow> UWorld list \<Rightarrow> ACosmosControlSensor \<Rightarrow> error + ACosmosControlSensor" where
  "RunTicks E [] sensor = Inr sensor"
| "RunTicks E (World # later) sensor =
     (case PostPhysTick E World sensor of
        Inl e \<Rightarrow> Inl e
      | Inr sensor' \<Rightarrow> RunTicks E later sensor')"

section \<open>The semantic classifier\<close>

text \<open>
  C9. \<open>GetColorByTag\<close> is a total function of the configuration and the tag alone: each
  of the ten tags the sensor draws is mapped to the configured colour of its category
  (cars, buses, motorcycles and trains share the cars colour), and every other tag is
  mapped to white.
\<close>

theorem GetColorByTag_table:
  "GetColorByTag cfg TrafficLight = TrafficLightsColor cfg \<and>
   GetColorByTag cfg TrafficSigns = TrafficSignsColor cfg \<and>
   GetColorByTag cfg Poles = PolesColor cfg \<and>
   GetColorByTag cfg Car = CarsColor cfg \<and>
   GetColorByTag cfg Bus = CarsColor cfg \<and>
   GetColorByTag cfg Motorcycle = CarsColor cfg \<and>
   GetColorByTag cfg Train = CarsColor cfg \<and>
   GetColorByTag cfg Truck = TrucksColor cfg \<and>
   GetColorByTag cfg Bicycle = CyclistsColor cfg \<and>
   GetColorByTag cfg Pedestrians = PedestriansColor cfg \<and>
   (\<forall>n. GetColorByTag cfg (OtherLabel n) = MkColor 255 255 255 255)"
  by (simp add: White_def)

section \<open>Crosswalk polygons: closed and unclosed runs\<close>

subsection \<open>One run of the loop\<close>

lemma CrosswalkLoop_open:
  "first_in_loop \<notin> set ps \<Longrightarrow> CrosswalkLoop conv first_in_loop cur ps = []"
  by (induction ps arbitrary: cur) auto

lemma CrosswalkLoop_closed:
  "first_in_loop \<notin> set ps \<Longrightarrow>
   CrosswalkLoop conv first_in_loop cur (ps @ first_in_loop # rest) =
     ClosePolygon (cur @ map conv ps) @ CrosswalkPolygons conv rest"
  by (induction ps arbitrary: cur) (auto simp: CrosswalkPolygons_def split: list.splits)

lemma CrosswalkPolygons_Nil: "CrosswalkPolygons conv [] = []"
  by (simp add: CrosswalkPolygons_def)

lemma CrosswalkPolygons_open:
  "p \<notin> set ps \<Longrightarrow> CrosswalkPolygons conv (p # ps) = []"
  by (simp add: CrosswalkPolygons_def CrosswalkLoop_open)

lemma CrosswalkPolygons_closed:
  assumes "r \<noteq> []" and "hd r \<notin> set (tl r)"
  shows "CrosswalkPolygons conv (r @ hd r # rest) =
           ClosePolygon (map conv r) @ CrosswalkPolygons conv rest"
proof -
  from assms obtain p ps where r: "r = p # ps" and p: "p \<notin> set ps"
    by (cases r) auto
  show ?thesis
    using CrosswalkLoop_closed [OF p, of conv "[conv p]" rest]
    by (simp add: r CrosswalkPolygons_def)
qed

lemma CrosswalkPolygons_runs:
  assumes "\<forall>r\<in>set runs. r \<noteq> [] \<and> hd r \<notin> set (tl r)"
  shows "CrosswalkPolygons conv (concat (map (\<lambda>r. r @ [hd r]) runs) @ rest) =
           concat (map (\<lambda>r. ClosePolygon (map conv r)) runs) @ CrosswalkPolygons conv rest"
  using assms
proof (induction runs)
  case Nil
  then show ?case by simp
next
  case (Cons r runs)
  then have r: "r \<noteq> []" "hd r \<notin> set (tl r)" by auto
  have "CrosswalkPolygons conv (r @ hd r # (concat (map (\<lambda>r. r @ [hd r]) runs) @ rest)) =
          ClosePolygon (map conv r) @
          CrosswalkPolygons conv (concat (map (\<lambda>r. r @ [hd r]) runs) @ rest)"
    by (rule CrosswalkPolygons_closed [OF r])
  with Cons show ?case by simp
qed

lemma ClosePolygon_runs:
  "concat (map (\<lambda>r. ClosePolygon (map conv r)) runs) =
     map (\<lambda>r. (map conv r, TriangleFan (length r))) (filter (\<lambda>r. 3 \<le> length r) runs)"
  by (induction runs) (auto simp: ClosePolygon_def)

lemma length_triples:
  "length (concat (map (\<lambda>j. [f j, g j, h j]) js)) = 3 * length js"
  by (induction js) auto

lemma nth_triple:
  "k < length js \<Longrightarrow>
   take 3 (drop (3 * k) (concat (map (\<lambda>j. [f j, g j, h j]) js))) = [f (js ! k), g (js ! k), h (js ! k)]"
proof (induction js arbitrary: k)
  case Nil
  then show ?case by simp
next
  case (Cons j js)
  show ?case
  proof (cases k)
    case 0
    then show ?thesis by simp
  next
    case (Suc m)
    with Cons.prems have "m < length js" by simp
    have "drop (3 * Suc m) ([f j, g j, h j] @ concat (map (\<lambda>j. [f j, g j, h j]) js)) =
          drop (3 * m) (concat (map (\<lambda>j. [f j, g j, h j]) js))"
      by (simp add: numeral_3_eq_3)
    with Cons.IH [OF \<open>m < length js\<close>] show ?thesis by (simp add: Suc)
  qed
qed

lemma length_TriangleFan: "length (TriangleFan n) = 3 * (n - 2)"
  unfolding TriangleFan_def by (simp add: length_triples)

lemma TriangleFan_triangle:
  assumes "k < n - 2"
  shows "take 3 (drop (3 * k) (TriangleFan n)) = [0, int k + 1, int k + 2]"
proof -
  have "k < length [1..<n - 1]" using assms by simp
  from nth_triple [OF this, of "\<lambda>j. 0" int "\<lambda>j. int j + 1"]
  show ?thesis using assms by (simp add: TriangleFan_def)
qed

subsection \<open>Sequences of runs\<close>

text \<open>
  C2. Let the crosswalk points be a sequence of closed runs: each run is non-empty, its
  first point does not occur again inside it, and it is followed by a repetition of its
  first point. Then the meshes handed to \<^verbatim>\<open>DrawDebugMesh\<close> are exactly the runs with at
  least three vertices, in order, each with the index list \<open>TriangleFan n\<close> over its
  \<open>n\<close> vertices; a run with fewer than three vertices yields no mesh. \<open>TriangleFan n\<close>
  has \<open>n - 2\<close> triangles, the \<open>k\<close>-th being \<open>(0, k + 1, k + 2)\<close>. In particular
  \<open>[a, b, c, a, d, e, f, d]\<close> (with \<open>a\<close> different from \<open>b\<close>, \<open>c\<close> and \<open>d\<close> from \<open>e\<close>,
  \<open>f\<close>) yields the two polygons \<open>{a, b, c}\<close> and \<open>{d, e, f}\<close> with one triangle each.
\<close>

theorem crosswalk_closed_runs_fan:
  "((\<forall>r\<in>set runs. r \<noteq> [] \<and> hd r \<notin> set (tl r)) \<longrightarrow>
      CrosswalkPolygons conv (concat (map (\<lambda>r. r @ [hd r]) runs)) =
        map (\<lambda>r. (map conv r, TriangleFan (length r))) (filter (\<lambda>r. 3 \<le> length r) runs)) \<and>
   length (TriangleFan n) = 3 * (n - 2) \<and>
   (\<forall>k. k < n - 2 \<longrightarrow> take 3 (drop (3 * k) (TriangleFan n)) = [0, int k + 1, int k + 2]) \<and>
   (a \<noteq> b \<and> a \<noteq> c \<and> d \<noteq> e \<and> d \<noteq> f \<longrightarrow>
      CrosswalkPolygons conv [a, b, c, a, d, e, f, d] =
        [([conv a, conv b, conv c], [0, 1, 2]), ([conv d, conv e, conv f], [0, 1, 2])])"
proof (intro conjI impI allI)
  assume wf: "\<forall>r\<in>set runs. r \<noteq> [] \<and> hd r \<notin> set (tl r)"
  from CrosswalkPolygons_runs [OF wf, of conv "[]"]
  show "CrosswalkPolygons conv (concat (map (\<lambda>r. r @ [hd r]) runs)) =
        map (\<lambda>r. (map conv r, TriangleFan (length r))) (filter (\<lambda>r. 3 \<le> length r) runs)"
    by (simp add: ClosePolygon_runs CrosswalkPolygons_Nil)
next
  show "length (TriangleFan n) = 3 * (n - 2)" by (rule length_TriangleFan)
next
  fix k assume "k < n - 2"
  then show "take 3 (drop (3 * k) (TriangleFan n)) = [0, int k + 1, int k + 2]"
    by (rule TriangleFan_triangle)
next
  assume ne: "a \<noteq> b \<and> a \<noteq> c \<and> d \<noteq> e \<and> d \<noteq> f"
  have fan3: "TriangleFan (Suc (Suc (Suc 0))) = [0, 1, 2]"
    by (simp add: TriangleFan_def)
  have wf: "\<forall>r\<in>set [[a, b, c], [d, e, f]]. r \<noteq> [] \<and> hd r \<notin> set (tl r)"
    using ne by simp
  from CrosswalkPolygons_runs [OF wf, of conv "[]"]
  show "CrosswalkPolygons conv [a, b, c, a, d, e, f, d] =
        [([conv a, conv b, conv c], [0, 1, 2]), ([conv d, conv e, conv f], [0, 1, 2])]"
    by (simp add: ClosePolygon_def fan3 CrosswalkPolygons_Nil)
qed

theorem crosswalk_closed_runs_fan_witness:
  "CrosswalkPolygons (\<lambda>p. case p of Location a b c \<Rightarrow> MkVector (100 * a) (100 * b) (100 * c))
     [Location 0 0 0, Location 1 0 0, Location 1 1 0, Location 0 0 0,
      Location 5 5 0, Location 6 5 0, Location 6 6 0, Location 5 5 0] =
     [([MkVector 0 0 0, MkVector 100 0 0, MkVector 100 100 0], [0, 1, 2]),
      ([MkVector 500 500 0, MkVector 600 500 0, MkVector 600 600 0], [0, 1, 2])] \<and>
   CrosswalkPolygons (\<lambda>p. case p of Location a b c \<Rightarrow> MkVector (100 * a) (100 * b) (100 * c))
     [Location 0 0 0, Location 1 0 0, Location 0 0 0,
      Location 5 5 0, Location 6 5 0, Location 6 6 0, Location 5 6 0, Location 5 5 0] =
     [([MkVector 500 500 0, MkVector 600 500 0, MkVector 600 600 0, MkVector 500 600 0],
       [0, 1, 2, 0, 2, 3])] \<and>
   length (TriangleFan 4) = 6 \<and>
   take 3 (drop 3 (TriangleFan 4)) = [0, 2, 3]"
  using crosswalk_closed_runs_fan
    [of "[[Location 0 0 0, Location 1 0 0],
          [Location 5 5 0, Location 6 5 0, Location 6 6 0, Location 5 6 0]]"
        "\<lambda>p. case p of Location a b c \<Rightarrow> MkVector (100 * a) (100 * b) (100 * c)" 4
        "Location 0 0 0" "Location 1 0 0" "Location 1 1 0"
        "Location 5 5 0" "Location 6 5 0" "Location 6 6 0"]
  by (simp add: TriangleFan_def upt_conv_Cons)

text \<open>
  C10. A trailing run that is never closed (its first point \<open>p\<close> does not occur again
  before the input ends) yields no mesh, however many vertices it has: the meshes of the
  whole sequence are those of the closed runs before it.
\<close>

theorem crosswalk_unclosed_tail:
  assumes "\<forall>r\<in>set runs. r \<noteq> [] \<and> hd r \<notin> set (tl r)" and "p \<notin> set ps"
  shows "CrosswalkPolygons conv (concat (map (\<lambda>r. r @ [hd r]) runs) @ p # ps) =
           CrosswalkPolygons conv (concat (map (\<lambda>r. r @ [hd r]) runs)) \<and>
         CrosswalkPolygons conv (concat (map (\<lambda>r. r @ [hd r]) runs) @ p # ps) =
           map (\<lambda>r. (map conv r, TriangleFan (length r))) (filter (\<lambda>r. 3 \<le> length r) runs) \<and>
         CrosswalkPolygons conv (p # ps) = []"
  using CrosswalkPolygons_runs [OF assms(1), of conv "p # ps"]
        CrosswalkPolygons_runs [OF assms(1), of conv "[]"]
        CrosswalkPolygons_open [OF assms(2), of conv]
  by (simp add: ClosePolygon_runs CrosswalkPolygons_Nil)

theorem crosswalk_unclosed_tail_witness:
  "CrosswalkPolygons (\<lambda>p. case p of Location a b c \<Rightarrow> MkVector (100 * a) (100 * b) (100 * c))
     [Location 0 0 0, Location 1 0 0, Location 1 1 0, Location 0 0 0,
      Location 5 5 0, Location 6 5 0, Location 6 6 0, Location 5 6 0] =
     [([MkVector 0 0 0, MkVector 100 0 0, MkVector 100 100 0], [0, 1, 2])] \<and>
   CrosswalkPolygons (\<lambda>p. case p of Location a b c \<Rightarrow> MkVector (100 * a) (100 * b) (100 * c))
     [Location 5 5 0, Location 6 5 0, Location 6 6 0, Location 5 6 0] = []"
  using crosswalk_unclosed_tail
    [of "[[Location 0 0 0, Location 1 0 0, Location 1 1 0]]"
        "Location 5 5 0" "[Location 6 5 0, Location 6 6 0, Location 5 6 0]"
        "\<lambda>p. case p of Location a b c \<Rightarrow> MkVector (100 * a) (100 * b) (100 * c)"]
  by (simp add: CrosswalkPolygons_def ClosePolygon_def TriangleFan_def)

section \<open>Lane adjacency of road splines\<close>








section \<open>Pole capsules, stop lines and the configuration file\<close>

subsection \<open>Pole capsules\<close>

text \<open>
  C6. Whenever a capsule is drawn for a pole-tagged mesh component, its half-height is
  the maximum of the derived vertical extent and the raw vertical extent of the actor's
  bounds, plus a ground offset: zero when the component's height \<open>Z\<close> exceeds \<open>250\<close>, the
  height itself otherwise. The radius is \<open>0.1\<close>. A pole at height \<open>300\<close> gets offset zero,
  a pole at height \<open>100\<close> gets offset \<open>100\<close>.
\<close>

theorem pole_capsule_half_height:
  assumes "ComponentTag c = Poles"
      and "GetOwner c = Some owner"
      and "DerivedBounds contains c (ActorBoundsOrigin owner) (ActorBoundsExtent owner) = Some bounds"
      and "AnnotateComponent contains cfg ignored registry player c \<noteq> []"
      and "half_height = max (Z (BoxExtent bounds)) (Z (ActorBoundsExtent owner))"
      and "height = Z (ComponentLocation c)"
  shows "AnnotateComponent contains cfg ignored registry player c =
           [DebugCapsule (vadd (ComponentLocation c) (MkVector 0 0 half_height))
              (half_height + (if height > 250 then 0 else height))
              (1 / 10) QuatIdentity (PolesColor cfg) False (PoleThickness cfg)] \<and>
         (height = 300 \<longrightarrow>
            AnnotateComponent contains cfg ignored registry player c =
              [DebugCapsule (vadd (ComponentLocation c) (MkVector 0 0 half_height))
                 half_height (1 / 10) QuatIdentity (PolesColor cfg) False (PoleThickness cfg)]) \<and>
         (height = 100 \<longrightarrow>
            AnnotateComponent contains cfg ignored registry player c =
              [DebugCapsule (vadd (ComponentLocation c) (MkVector 0 0 half_height))
                 (half_height + 100) (1 / 10) QuatIdentity (PolesColor cfg) False
                 (PoleThickness cfg)])"
proof -
  have drawn: "AnnotateComponent contains cfg ignored registry player c =
      DrawByTag cfg c owner bounds (ActorBoundsExtent owner)"
    using assms(2,3,4)
    by (simp add: AnnotateComponent_def split: if_splits option.splits)
  have capsule: "DrawByTag cfg c owner bounds (ActorBoundsExtent owner) =
      [DebugCapsule (vadd (ComponentLocation c) (MkVector 0 0 half_height))
         (half_height + (if height > 250 then 0 else height))
         (1 / 10) QuatIdentity (PolesColor cfg) False (PoleThickness cfg)]"
    using assms(1,5,6) by (simp add: DrawByTag_def Let_def)
  show ?thesis
    using drawn capsule by simp
qed

theorem pole_capsule_half_height_witness:
  "AnnotateComponent (\<lambda>name part. part = ''mesh'') DefaultRenderConfig [] [] None
     \<lparr>IsVisible = True,
      GetOwner = Some \<lparr>ActorRef = 4, ActorBoundsOrigin = MkVector 0 0 700,
                       ActorBoundsExtent = MkVector 20 20 350, ActorRotation = QuatIdentity\<rparr>,
      ComponentLocation = MkVector 10 20 300, ComponentTag = Poles,
      ComponentName = ''pole_mesh'',
      MeshClass = StaticMeshComponent
        (Some \<lparr>Origin = MkVector 0 0 0, BoxExtent = MkVector 15 15 400, SphereRadius = 401\<rparr>)\<rparr> =
     [DebugCapsule (MkVector 10 20 700) 400 (1 / 10) QuatIdentity (MkColor 66 40 144 255)
        False 8] \<and>
   AnnotateComponent (\<lambda>name part. part = ''mesh'') DefaultRenderConfig [] [] None
     \<lparr>IsVisible = True,
      GetOwner = Some \<lparr>ActorRef = 4, ActorBoundsOrigin = MkVector 0 0 700,
                       ActorBoundsExtent = MkVector 20 20 350, ActorRotation = QuatIdentity\<rparr>,
      ComponentLocation = MkVector 10 20 100, ComponentTag = Poles,
      ComponentName = ''pole_mesh'',
      MeshClass = StaticMeshComponent
        (Some \<lparr>Origin = MkVector 0 0 0, BoxExtent = MkVector 15 15 400, SphereRadius = 401\<rparr>)\<rparr> =
     [DebugCapsule (MkVector 10 20 500) 500 (1 / 10) QuatIdentity (MkColor 66 40 144 255)
        False 8]"
  using pole_capsule_half_height
    [of "\<lparr>IsVisible = True,
      GetOwner = Some \<lparr>ActorRef = 4, ActorBoundsOrigin = MkVector 0 0 700,
                       ActorBoundsExtent = MkVector 20 20 350, ActorRotation = QuatIdentity\<rparr>,
      ComponentLocation = MkVector 10 20 300, ComponentTag = Poles,
      ComponentName = ''pole_mesh'',
      MeshClass = StaticMeshComponent
        (Some \<lparr>Origin = MkVector 0 0 0, BoxExtent = MkVector 15 15 400, SphereRadius = 401\<rparr>)\<rparr>"
      "\<lparr>ActorRef = 4, ActorBoundsOrigin = MkVector 0 0 700,
        ActorBoundsExtent = MkVector 20 20 350, ActorRotation = QuatIdentity\<rparr>"
      "\<lambda>name part. part = ''mesh''"
      "\<lparr>Origin = MkVector 0 0 700, BoxExtent = MkVector 15 15 400, SphereRadius = 401\<rparr>"
      DefaultRenderConfig "[]" "[]" None 400 300]
    pole_capsule_half_height
    [of "\<lparr>IsVisible = True,
      GetOwner = Some \<lparr>ActorRef = 4, ActorBoundsOrigin = MkVector 0 0 700,
                       ActorBoundsExtent = MkVector 20 20 350, ActorRotation = QuatIdentity\<rparr>,
      ComponentLocation = MkVector 10 20 100, ComponentTag = Poles,
      ComponentName = ''pole_mesh'',
      MeshClass = StaticMeshComponent
        (Some \<lparr>Origin = MkVector 0 0 0, BoxExtent = MkVector 15 15 400, SphereRadius = 401\<rparr>)\<rparr>"
      "\<lparr>ActorRef = 4, ActorBoundsOrigin = MkVector 0 0 700,
        ActorBoundsExtent = MkVector 20 20 350, ActorRotation = QuatIdentity\<rparr>"
      "\<lambda>name part. part = ''mesh''"
      "\<lparr>Origin = MkVector 0 0 700, BoxExtent = MkVector 15 15 400, SphereRadius = 401\<rparr>"
      DefaultRenderConfig "[]" "[]" None 400 100]
  by (simp add: AnnotateComponent_def DerivedBounds_def DrawByTag_def FindCarlaActor_def
        MkVector_def vadd_def DefaultRenderConfig_def MkColor_def)

subsection \<open>Stop lines\<close>

text \<open>
  C8 (as amended). The stop line of a collider runs along the collider's forward axis:
  its end points are the centre minus and plus the forward vector scaled by the box's
  scaled \<open>X\<close> extent, so their difference is a multiple of the forward vector. The centre
  is the collider's \<open>X\<close>, \<open>Y\<close> location at height minus (half the stop-line thickness
  plus \<open>2\<close>), shifted by \<open>-710\<close> times the right vector. The line is persistent, in the
  wait-line colour, with the configured stop-line thickness; when every traffic light
  has a collider, one such line is emitted per light, in order.
\<close>

theorem stop_line_along_forward_axis:
  assumes "base = MkVector (X (BoxLocation c)) (Y (BoxLocation c)) (- (StopLineThickness cfg / 2 + 2))"
      and "centre = vsub base (vscale 710 (RightVector c))"
      and "half = vscale (X (ScaledBoxExtent c)) (ForwardVector c)"
  shows "StopLine cfg c =
           DebugLine (vsub centre half) (vadd centre half) (WaitLinesColor cfg) True
             (StopLineThickness cfg) \<and>
         vsub (vadd centre half) (vsub centre half) =
           vscale (2 * X (ScaledBoxExtent c)) (ForwardVector c) \<and>
         ((\<forall>t\<in>set lights. BoxComponent t \<noteq> None) \<longrightarrow>
            StopLinesLoop cfg lights = Inr (map (\<lambda>t. StopLine cfg (the (BoxComponent t))) lights))"
proof (intro conjI impI)
  show "StopLine cfg c =
           DebugLine (vsub centre half) (vadd centre half) (WaitLinesColor cfg) True
             (StopLineThickness cfg)"
    by (simp add: assms StopLine_def Let_def vsub_def vadd_def vscale_def MkVector_def)
  show "vsub (vadd centre half) (vsub centre half) =
           vscale (2 * X (ScaledBoxExtent c)) (ForwardVector c)"
    by (simp add: assms(3) vsub_def vadd_def vscale_def)
  show "StopLinesLoop cfg lights = Inr (map (\<lambda>t. StopLine cfg (the (BoxComponent t))) lights)"
    if "\<forall>t\<in>set lights. BoxComponent t \<noteq> None"
    using that by (induction lights) auto
qed

theorem stop_line_along_forward_axis_witness:
  "StopLine DefaultRenderConfig
     \<lparr>BoxLocation = MkVector 1000 2000 30, ScaledBoxExtent = MkVector 100 50 40,
      ForwardVector = MkVector 1 0 0, RightVector = MkVector 0 1 0\<rparr> =
     DebugLine (MkVector 900 1290 (- 6)) (MkVector 1100 1290 (- 6))
       (MkColor 185 63 34 255) True 8 \<and>
   StopLinesLoop DefaultRenderConfig
     [\<lparr>TrafficLightRef = 1,
       BoxComponent = Some \<lparr>BoxLocation = MkVector 1000 2000 30,
         ScaledBoxExtent = MkVector 100 50 40,
         ForwardVector = MkVector 1 0 0, RightVector = MkVector 0 1 0\<rparr>\<rparr>] =
     Inr [DebugLine (MkVector 900 1290 (- 6)) (MkVector 1100 1290 (- 6))
            (MkColor 185 63 34 255) True 8]"
  using stop_line_along_forward_axis
    [of "MkVector 1000 2000 (- 6)"
        "\<lparr>BoxLocation = MkVector 1000 2000 30, ScaledBoxExtent = MkVector 100 50 40,
          ForwardVector = MkVector 1 0 0, RightVector = MkVector 0 1 0\<rparr>"
        DefaultRenderConfig "MkVector 1000 1290 (- 6)" "MkVector 100 0 0"
        "[\<lparr>TrafficLightRef = 1,
           BoxComponent = Some \<lparr>BoxLocation = MkVector 1000 2000 30,
             ScaledBoxExtent = MkVector 100 50 40,
             ForwardVector = MkVector 1 0 0, RightVector = MkVector 0 1 0\<rparr>\<rparr>]"]
  by (simp add: StopLine_def MkVector_def vsub_def vadd_def vscale_def DefaultRenderConfig_def)

text \<open>
  The claim as stated fails: for a collider with forward axis \<open>(1, 0, 0)\<close> and right axis
  \<open>(0, 1, 0)\<close> the drawn line points along \<open>(200, 0, 0)\<close>; its scalar product with the
  forward axis is \<open>200\<close>, not zero, so it is parallel to that axis, not perpendicular.
\<close>

theorem stop_line_not_perpendicular_counterexample:
  "StopLine DefaultRenderConfig
     \<lparr>BoxLocation = MkVector 0 0 0, ScaledBoxExtent = MkVector 100 50 40,
      ForwardVector = MkVector 1 0 0, RightVector = MkVector 0 1 0\<rparr> =
     DebugLine (MkVector (- 100) (- 710) (- 6)) (MkVector 100 (- 710) (- 6))
       (MkColor 185 63 34 255) True 8 \<and>
   vdot (vsub (MkVector 100 (- 710) (- 6)) (MkVector (- 100) (- 710) (- 6))) (MkVector 1 0 0) = 200 \<and>
   vdot (vsub (MkVector 100 (- 710) (- 6)) (MkVector (- 100) (- 710) (- 6))) (MkVector 1 0 0) \<noteq> 0"
  by (simp add: StopLine_def MkVector_def vsub_def vadd_def vscale_def vdot_def
        DefaultRenderConfig_def)

subsection \<open>Configuration\<close>

lemma LoadColors_thickness:
  "VehicleBoxThickness (LoadColors J cs cfg) = VehicleBoxThickness cfg"
  "PoleThickness (LoadColors J cs cfg) = PoleThickness cfg"
  "StopLineThickness (LoadColors J cs cfg) = StopLineThickness cfg"
  "RoadLineThickness (LoadColors J cs cfg) = RoadLineThickness cfg"
  by (simp_all add: LoadColors_def)

text \<open>
  C5 (what the code does). For a file whose \<^verbatim>\<open>LineThickness\<close> object holds
  \<^verbatim>\<open>road_lines\<close> only, the three other thicknesses are overwritten by what the JSON
  library yields for an absent number field, the same value for all three, so the
  defaults \<open>5\<close>, \<open>8\<close>, \<open>8\<close> cannot all survive; with the engine's \<open>0.0\<close> they become zero.
  The colours keep their defaults.
\<close>

theorem partial_thickness_overwrites:
  "VehicleBoxThickness
     (LoadConfigFromFile J
        (Deserialized [(''CosmosControlVisualization'',
           JsonObject [(''LineThickness'', JsonObject [(''road_lines'', JsonNumber 4)])])])
        DefaultRenderConfig) = NonNumber J JsonNull \<and>
   PoleThickness
     (LoadConfigFromFile J
        (Deserialized [(''CosmosControlVisualization'',
           JsonObject [(''LineThickness'', JsonObject [(''road_lines'', JsonNumber 4)])])])
        DefaultRenderConfig) = NonNumber J JsonNull \<and>
   StopLineThickness
     (LoadConfigFromFile J
        (Deserialized [(''CosmosControlVisualization'',
           JsonObject [(''LineThickness'', JsonObject [(''road_lines'', JsonNumber 4)])])])
        DefaultRenderConfig) = NonNumber J JsonNull \<and>
   LoadConfigFromFile J
     (Deserialized [(''CosmosControlVisualization'',
        JsonObject [(''LineThickness'', JsonObject [(''road_lines'', JsonNumber 4)])])])
     DefaultRenderConfig \<noteq> DefaultRenderConfig\<lparr>RoadLineThickness := 4\<rparr> \<and>
   LoadConfigFromFile \<lparr>NonNumber = (\<lambda>v. 0), NoObject = Some [], ToUInt8 = (\<lambda>d. word_of_int \<lfloor>d\<rfloor>)\<rparr>
     (Deserialized [(''CosmosControlVisualization'',
        JsonObject [(''LineThickness'', JsonObject [(''road_lines'', JsonNumber 4)])])])
     DefaultRenderConfig =
     DefaultRenderConfig\<lparr>RoadLineThickness := 4, VehicleBoxThickness := 0, PoleThickness := 0,
       StopLineThickness := 0\<rparr>"
proof -
  let ?file = "Deserialized [(''CosmosControlVisualization'',
        JsonObject [(''LineThickness'', JsonObject [(''road_lines'', JsonNumber 4)])])]"
  let ?cfg = "LoadConfigFromFile J ?file DefaultRenderConfig"
  have v: "VehicleBoxThickness ?cfg = NonNumber J JsonNull"
    by (simp add: LoadConfigFromFile_def GetObjectField_def LoadThickness_def GetNumberField_def
          AsNumber_def LoadColors_thickness Let_def split: option.splits)
  have p: "PoleThickness ?cfg = NonNumber J JsonNull"
    by (simp add: LoadConfigFromFile_def GetObjectField_def LoadThickness_def GetNumberField_def
          AsNumber_def LoadColors_thickness Let_def split: option.splits)
  have s: "StopLineThickness ?cfg = NonNumber J JsonNull"
    by (simp add: LoadConfigFromFile_def GetObjectField_def LoadThickness_def GetNumberField_def
          AsNumber_def LoadColors_thickness Let_def split: option.splits)
  have ne: "?cfg \<noteq> DefaultRenderConfig\<lparr>RoadLineThickness := 4\<rparr>"
  proof
    assume eq: "?cfg = DefaultRenderConfig\<lparr>RoadLineThickness := 4\<rparr>"
    have "VehicleBoxThickness ?cfg = PoleThickness ?cfg" using v p by simp
    then show False unfolding eq by (simp add: DefaultRenderConfig_def)
  qed
  have ev: "LoadConfigFromFile \<lparr>NonNumber = (\<lambda>v. 0), NoObject = Some [], ToUInt8 = (\<lambda>d. word_of_int \<lfloor>d\<rfloor>)\<rparr>
     ?file DefaultRenderConfig =
     DefaultRenderConfig\<lparr>RoadLineThickness := 4, VehicleBoxThickness := 0, PoleThickness := 0,
       StopLineThickness := 0\<rparr>"
    by (simp add: LoadConfigFromFile_def GetObjectField_def LoadThickness_def GetNumberField_def
          AsNumber_def LoadColors_def LoadColor_def TryGetArrayField_def DefaultRenderConfig_def)
  show ?thesis using v p s ne ev by simp
qed

section \<open>The one-time annotators across ticks\<close>

lemma Draw_fields:
  "added_persisted_stop_lines (Draw w d s) = added_persisted_stop_lines s"
  "added_persisted_route_lines (Draw w d s) = added_persisted_route_lines s"
  "added_persisted_crosswalks (Draw w d s) = added_persisted_crosswalks s"
  "added_persisted_stencils (Draw w d s) = added_persisted_stencils s"
  "RenderConfig (Draw w d s) = RenderConfig s"
  by (simp_all add: Draw_def)

lemma fold_Draw_fields:
  "added_persisted_stop_lines (fold (Draw w) ds s) = added_persisted_stop_lines s"
  "added_persisted_route_lines (fold (Draw w) ds s) = added_persisted_route_lines s"
  "added_persisted_crosswalks (fold (Draw w) ds s) = added_persisted_crosswalks s"
  "added_persisted_stencils (fold (Draw w) ds s) = added_persisted_stencils s"
  "RenderConfig (fold (Draw w) ds s) = RenderConfig s"
  by (induction ds arbitrary: s; simp add: Draw_fields)+

lemma Draw_TrafficLights: "Draw (w\<lparr>TrafficLights := lights\<rparr>) = Draw w"
  by (intro ext) (simp add: Draw_def)

lemma DynamicObjects_fields:
  "added_persisted_stop_lines (DynamicObjects E w s) = added_persisted_stop_lines s"
  "added_persisted_route_lines (DynamicObjects E w s) = added_persisted_route_lines s"
  "added_persisted_crosswalks (DynamicObjects E w s) = added_persisted_crosswalks s"
  "added_persisted_stencils (DynamicObjects E w s) = added_persisted_stencils s"
  "RenderConfig (DynamicObjects E w s) = RenderConfig s"
  by (simp_all add: DynamicObjects_def fold_Draw_fields)

lemma RouteLines_fields:
  "added_persisted_stop_lines (RouteLines w s) = added_persisted_stop_lines s"
  "added_persisted_route_lines (RouteLines w s) =
     (added_persisted_route_lines s \<or> RoadSplines w \<noteq> [])"
  "added_persisted_crosswalks (RouteLines w s) = added_persisted_crosswalks s"
  "added_persisted_stencils (RouteLines w s) = added_persisted_stencils s"
  by (simp_all add: RouteLines_def fold_Draw_fields)

lemma Crosswalks_fields:
  "added_persisted_stop_lines (Crosswalks E w s) = added_persisted_stop_lines s"
  "added_persisted_route_lines (Crosswalks E w s) = added_persisted_route_lines s"
  "added_persisted_crosswalks (Crosswalks E w s) =
     (added_persisted_crosswalks s \<or> carla_game_mode w \<noteq> None)"
  "added_persisted_stencils (Crosswalks E w s) = added_persisted_stencils s"
  by (simp_all add: Crosswalks_def fold_Draw_fields split: option.splits)

lemma Stencils_fields:
  "added_persisted_stop_lines (Stencils E w s) = added_persisted_stop_lines s"
  "added_persisted_route_lines (Stencils E w s) = added_persisted_route_lines s"
  "added_persisted_crosswalks (Stencils E w s) = added_persisted_crosswalks s"
  "added_persisted_stencils (Stencils E w s) =
     (added_persisted_stencils s \<or> carla_game_mode w \<noteq> None)"
  by (simp_all add: Stencils_def fold_Draw_fields split: option.splits)

lemma StopLines_fields:
  assumes "StopLines w s = Inr s'"
  shows "added_persisted_stop_lines s'"
    and "added_persisted_route_lines s' = added_persisted_route_lines s"
    and "added_persisted_crosswalks s' = added_persisted_crosswalks s"
    and "added_persisted_stencils s' = added_persisted_stencils s"
  using assms
  by (auto simp: StopLines_def fold_Draw_fields split: if_splits sum.splits)

lemma PostPhysTick_fields:
  assumes "PostPhysTick E w s = Inr s'"
  shows "added_persisted_stop_lines s'"
    and "added_persisted_route_lines s' =
           (added_persisted_route_lines s \<or> RoadSplines w \<noteq> [])"
    and "added_persisted_crosswalks s' =
           (added_persisted_crosswalks s \<or> carla_game_mode w \<noteq> None)"
    and "added_persisted_stencils s' =
           (added_persisted_stencils s \<or> carla_game_mode w \<noteq> None)"
proof -
  from assms obtain m where
    m: "StopLines w (DynamicObjects E w (s\<lparr>DynamicLines := []\<rparr>)) = Inr m" and
    s': "s' = Stencils E w (Crosswalks E w (RouteLines w m))"
    by (auto simp: PostPhysTick_def split: sum.splits)
  note f = StopLines_fields [OF m]
  show "added_persisted_stop_lines s'"
    by (simp add: s' Stencils_fields Crosswalks_fields RouteLines_fields f)
  show "added_persisted_route_lines s' =
           (added_persisted_route_lines s \<or> RoadSplines w \<noteq> [])"
    by (simp add: s' Stencils_fields Crosswalks_fields RouteLines_fields f DynamicObjects_fields)
  show "added_persisted_crosswalks s' =
           (added_persisted_crosswalks s \<or> carla_game_mode w \<noteq> None)"
    by (simp add: s' Stencils_fields Crosswalks_fields RouteLines_fields f DynamicObjects_fields)
  show "added_persisted_stencils s' =
           (added_persisted_stencils s \<or> carla_game_mode w \<noteq> None)"
    by (simp add: s' Stencils_fields Crosswalks_fields RouteLines_fields f DynamicObjects_fields)
qed

lemma StopLines_done:
  "added_persisted_stop_lines s \<Longrightarrow> StopLines w s = Inr s"
  by (simp add: StopLines_def)

lemma annotators_TrafficLights:
  "RouteLines (w\<lparr>TrafficLights := lights\<rparr>) s = RouteLines w s"
  "Crosswalks E (w\<lparr>TrafficLights := lights\<rparr>) s = Crosswalks E w s"
  "Stencils E (w\<lparr>TrafficLights := lights\<rparr>) s = Stencils E w s"
  by (simp_all add: RouteLines_def Crosswalks_def Stencils_def Draw_TrafficLights
        cong: if_cong option.case_cong)

lemma PostPhysTick_TrafficLights:
  assumes "added_persisted_stop_lines s"
  shows "PostPhysTick E (w\<lparr>TrafficLights := lights\<rparr>) s = PostPhysTick E w s"
proof -
  have dyn: "DynamicObjects E (w\<lparr>TrafficLights := lights\<rparr>) (s\<lparr>DynamicLines := []\<rparr>) =
             DynamicObjects E w (s\<lparr>DynamicLines := []\<rparr>)"
    by (simp add: DynamicObjects_def Draw_TrafficLights)
  have flag: "added_persisted_stop_lines (DynamicObjects E w (s\<lparr>DynamicLines := []\<rparr>))"
    using assms by (simp add: DynamicObjects_fields)
  show ?thesis
    by (simp add: PostPhysTick_def dyn StopLines_done [OF flag] annotators_TrafficLights)
qed

lemma RunTicks_TrafficLights:
  assumes "added_persisted_stop_lines s"
  shows "RunTicks E (map (\<lambda>w. w\<lparr>TrafficLights := lights w\<rparr>) ws) s = RunTicks E ws s"
  using assms
proof (induction ws arbitrary: s)
  case Nil
  then show ?case by simp
next
  case (Cons w ws)
  show ?case
  proof (cases "PostPhysTick E w s")
    case (Inl e)
    then show ?thesis
      by (simp add: PostPhysTick_TrafficLights [OF Cons.prems])
  next
    case (Inr s')
    then have "added_persisted_stop_lines s'" by (rule PostPhysTick_fields(1))
    from Cons.IH [OF this] Inr show ?thesis
      by (simp add: PostPhysTick_TrafficLights [OF Cons.prems])
  qed
qed

lemma RunTicks_stop_flag:
  assumes "added_persisted_stop_lines s" and "RunTicks E ws s = Inr s'"
  shows "added_persisted_stop_lines s'"
  using assms
proof (induction ws arbitrary: s)
  case Nil
  then show ?case by simp
next
  case (Cons w ws)
  then show ?case
    by (auto split: sum.splits dest: PostPhysTick_fields(1))
qed

text \<open>
  C7. After any completed tick the stop-line flag is set, whatever traffic lights the
  world holds. From then on every run of further ticks is the same whatever traffic
  lights each of its worlds holds, the flag stays set, and the stop-line annotator
  leaves the sensor unchanged.
\<close>

theorem stop_lines_one_shot:
  assumes "PostPhysTick E w0 s0 = Inr s1"
  shows "added_persisted_stop_lines s1 \<and>
         (\<forall>ws lights. RunTicks E (map (\<lambda>w. w\<lparr>TrafficLights := lights w\<rparr>) ws) s1 =
                       RunTicks E ws s1) \<and>
         (\<forall>ws s2 w. RunTicks E ws s1 = Inr s2 \<longrightarrow>
            added_persisted_stop_lines s2 \<and> StopLines w s2 = Inr s2)"
proof -
  have flag: "added_persisted_stop_lines s1"
    using assms by (rule PostPhysTick_fields(1))
  show ?thesis
    using flag RunTicks_TrafficLights [OF flag] RunTicks_stop_flag [OF flag]
    by (auto intro: StopLines_done)
qed

theorem stop_lines_one_shot_witness:
  "PostPhysTick
     \<lparr>Contains = (\<lambda>name part. False),
      ToFVector = (\<lambda>p. case p of Location a b c \<Rightarrow> MkVector a b c),
      RotateVector = (\<lambda>q v. v)\<rparr>
     \<lparr>DedicatedServer = False, ActorRegistry = [], MeshComponents = [],
      TrafficLights = [],
      RoadSplines = [],
      carla_game_mode = None\<rparr>
     \<lparr>added_persisted_stop_lines = False, added_persisted_route_lines = False,
      added_persisted_crosswalks = False, added_persisted_stencils = False,
      RenderConfig = DefaultRenderConfig, IgnoredVehicles = [], DynamicLines = [],
      PersistentLines = []\<rparr> =
   Inr \<lparr>added_persisted_stop_lines = True, added_persisted_route_lines = False,
      added_persisted_crosswalks = False, added_persisted_stencils = False,
      RenderConfig = DefaultRenderConfig, IgnoredVehicles = [], DynamicLines = [],
      PersistentLines = []\<rparr> \<and>
   added_persisted_stop_lines
     \<lparr>added_persisted_stop_lines = True, added_persisted_route_lines = False,
      added_persisted_crosswalks = False, added_persisted_stencils = False,
      RenderConfig = DefaultRenderConfig, IgnoredVehicles = [], DynamicLines = [],
      PersistentLines = []\<rparr> \<and>
   RunTicks
     \<lparr>Contains = (\<lambda>name part. False),
      ToFVector = (\<lambda>p. case p of Location a b c \<Rightarrow> MkVector a b c),
      RotateVector = (\<lambda>q v. v)\<rparr>
     [\<lparr>DedicatedServer = False, ActorRegistry = [], MeshComponents = [],
      TrafficLights = [\<lparr>TrafficLightRef = 1,
         BoxComponent = Some \<lparr>BoxLocation = MkVector 0 0 0, ScaledBoxExtent = MkVector 100 50 40,
           ForwardVector = MkVector 1 0 0, RightVector = MkVector 0 1 0\<rparr>\<rparr>],
      RoadSplines = [],
      carla_game_mode = None\<rparr>]
     \<lparr>added_persisted_stop_lines = True, added_persisted_route_lines = False,
      added_persisted_crosswalks = False, added_persisted_stencils = False,
      RenderConfig = DefaultRenderConfig, IgnoredVehicles = [], DynamicLines = [],
      PersistentLines = []\<rparr> =
   Inr \<lparr>added_persisted_stop_lines = True, added_persisted_route_lines = False,
      added_persisted_crosswalks = False, added_persisted_stencils = False,
      RenderConfig = DefaultRenderConfig, IgnoredVehicles = [], DynamicLines = [],
      PersistentLines = []\<rparr>"
  using stop_lines_one_shot
    [of "\<lparr>Contains = (\<lambda>name part. False),
      ToFVector = (\<lambda>p. case p of Location a b c \<Rightarrow> MkVector a b c),
      RotateVector = (\<lambda>q v. v)\<rparr>"
        "\<lparr>DedicatedServer = False, ActorRegistry = [], MeshComponents = [],
      TrafficLights = [],
      RoadSplines = [],
      carla_game_mode = None\<rparr>"
        "\<lparr>added_persisted_stop_lines = False, added_persisted_route_lines = False,
      added_persisted_crosswalks = False, added_persisted_stencils = False,
      RenderConfig = DefaultRenderConfig, IgnoredVehicles = [], DynamicLines = [],
      PersistentLines = []\<rparr>"
        "\<lparr>added_persisted_stop_lines = True, added_persisted_route_lines = False,
      added_persisted_crosswalks = False, added_persisted_stencils = False,
      RenderConfig = DefaultRenderConfig, IgnoredVehicles = [], DynamicLines = [],
      PersistentLines = []\<rparr>"]
  by (simp add: RunTicks.simps PostPhysTick_def DynamicObjects_def StopLines_def RouteLines_def
        Crosswalks_def Stencils_def Draw_def DrawRouteLines_def SplinesByRoadId_def DrawRoad_def
        ShouldRender_def found_splines_def NeighbourLaneID_def RightRule_def DrawSpline_def
        CrosswalkPolygons_def ClosePolygon_def TriangleFan_def DrawStencils_def StopLine_def
        vscale_def vadd_def vsub_def MkVector_def MkColor_def DefaultRenderConfig_def)

text \<open>
  C3 (as amended). Each of the four flags, once set, makes its annotator leave the
  sensor unchanged, and a completed tick never clears a flag. The stop-line flag is set
  by every completed tick. The route-line flag is set only by a tick that finds a road
  spline, and the crosswalk and stencil flags only by a tick on which the game mode is
  present; without road splines, or without a game mode, the annotator leaves the
  sensor unchanged and runs again on the next tick.
\<close>

theorem persisted_flags_gate:
  "(added_persisted_stop_lines s \<longrightarrow> StopLines w s = Inr s) \<and>
   (added_persisted_route_lines s \<longrightarrow> RouteLines w s = s) \<and>
   (added_persisted_crosswalks s \<longrightarrow> Crosswalks E w s = s) \<and>
   (added_persisted_stencils s \<longrightarrow> Stencils E w s = s) \<and>
   (RoadSplines w = [] \<longrightarrow> RouteLines w s = s) \<and>
   (carla_game_mode w = None \<longrightarrow> Crosswalks E w s = s \<and> Stencils E w s = s) \<and>
   (PostPhysTick E w s = Inr s' \<longrightarrow>
      added_persisted_stop_lines s' \<and>
      added_persisted_route_lines s' = (added_persisted_route_lines s \<or> RoadSplines w \<noteq> []) \<and>
      added_persisted_crosswalks s' = (added_persisted_crosswalks s \<or> carla_game_mode w \<noteq> None) \<and>
      added_persisted_stencils s' = (added_persisted_stencils s \<or> carla_game_mode w \<noteq> None))"
proof (intro conjI impI)
  show "StopLines w s = Inr s" if "added_persisted_stop_lines s"
    using that by (rule StopLines_done)
  show "RouteLines w s = s" if "added_persisted_route_lines s"
    using that by (simp add: RouteLines_def)
  show "Crosswalks E w s = s" if "added_persisted_crosswalks s"
    using that by (simp add: Crosswalks_def split: option.splits)
  show "Stencils E w s = s" if "added_persisted_stencils s"
    using that by (simp add: Stencils_def split: option.splits)
  show "RouteLines w s = s" if "RoadSplines w = []"
    using that by (simp add: RouteLines_def DrawRouteLines_def SplinesByRoadId_def)
  show "Crosswalks E w s = s" if "carla_game_mode w = None"
    using that by (simp add: Crosswalks_def)
  show "Stencils E w s = s" if "carla_game_mode w = None"
    using that by (simp add: Stencils_def)
next
  assume t: "PostPhysTick E w s = Inr s'"
  show "added_persisted_stop_lines s'"
    by (rule PostPhysTick_fields(1) [OF t])
  show "added_persisted_route_lines s' = (added_persisted_route_lines s \<or> RoadSplines w \<noteq> [])"
    by (rule PostPhysTick_fields(2) [OF t])
  show "added_persisted_crosswalks s' = (added_persisted_crosswalks s \<or> carla_game_mode w \<noteq> None)"
    by (rule PostPhysTick_fields(3) [OF t])
  show "added_persisted_stencils s' = (added_persisted_stencils s \<or> carla_game_mode w \<noteq> None)"
    by (rule PostPhysTick_fields(4) [OF t])
qed

theorem persisted_flags_gate_witness:
  "RouteLines
     \<lparr>DedicatedServer = False, ActorRegistry = [], MeshComponents = [],
      TrafficLights = [],
      RoadSplines = [],
      carla_game_mode = None\<rparr>
     \<lparr>added_persisted_stop_lines = False, added_persisted_route_lines = False,
      added_persisted_crosswalks = False, added_persisted_stencils = False,
      RenderConfig = DefaultRenderConfig, IgnoredVehicles = [], DynamicLines = [],
      PersistentLines = []\<rparr> =
   \<lparr>added_persisted_stop_lines = False, added_persisted_route_lines = False,
      added_persisted_crosswalks = False, added_persisted_stencils = False,
      RenderConfig = DefaultRenderConfig, IgnoredVehicles = [], DynamicLines = [],
      PersistentLines = []\<rparr> \<and>
   PostPhysTick
     \<lparr>Contains = (\<lambda>name part. False),
      ToFVector = (\<lambda>p. case p of Location a b c \<Rightarrow> MkVector a b c),
      RotateVector = (\<lambda>q v. v)\<rparr>
     \<lparr>DedicatedServer = False, ActorRegistry = [], MeshComponents = [],
      TrafficLights = [],
      RoadSplines = [],
      carla_game_mode = None\<rparr>
     \<lparr>added_persisted_stop_lines = False, added_persisted_route_lines = False,
      added_persisted_crosswalks = False, added_persisted_stencils = False,
      RenderConfig = DefaultRenderConfig, IgnoredVehicles = [], DynamicLines = [],
      PersistentLines = []\<rparr> =
   Inr \<lparr>added_persisted_stop_lines = True, added_persisted_route_lines = False,
      added_persisted_crosswalks = False, added_persisted_stencils = False,
      RenderConfig = DefaultRenderConfig, IgnoredVehicles = [], DynamicLines = [],
      PersistentLines = []\<rparr> \<and>
   PostPhysTick
     \<lparr>Contains = (\<lambda>name part. False),
      ToFVector = (\<lambda>p. case p of Location a b c \<Rightarrow> MkVector a b c),
      RotateVector = (\<lambda>q v. v)\<rparr>
     \<lparr>DedicatedServer = False, ActorRegistry = [], MeshComponents = [],
      TrafficLights = [\<lparr>TrafficLightRef = 1,
         BoxComponent = Some \<lparr>BoxLocation = MkVector 0 0 0, ScaledBoxExtent = MkVector 100 50 40,
           ForwardVector = MkVector 1 0 0, RightVector = MkVector 0 1 0\<rparr>\<rparr>],
      RoadSplines = [\<lparr>RoadID = 3, LaneID = - 2, BoundaryType = Driving, OrientationType = Right,
          bIsJunction = False, SplinePoints = [MkVector 0 0 0, MkVector 100 0 0]\<rparr>,
         \<lparr>RoadID = 3, LaneID = - 1, BoundaryType = Driving, OrientationType = Right,
          bIsJunction = False, SplinePoints = [MkVector 0 350 0, MkVector 100 350 0]\<rparr>],
      carla_game_mode = Some \<lparr>GetAllCrosswalkZones =
                 [Location 0 0 0, Location 4 0 0, Location 4 3 0, Location 0 0 0],
               GetStencils = []\<rparr>\<rparr>
     \<lparr>added_persisted_stop_lines = True, added_persisted_route_lines = True,
      added_persisted_crosswalks = True, added_persisted_stencils = True,
      RenderConfig = DefaultRenderConfig, IgnoredVehicles = [], DynamicLines = [],
      PersistentLines = [DebugLine (MkVector 0 0 (- 8)) (MkVector 100 0 (- 8)) (MkColor 98 183 249 255) True 8,
         DebugMesh [MkVector 0 0 0, MkVector 400 0 0, MkVector 400 300 0] [0, 1, 2]
           (MkColor 206 131 63 255) True]\<rparr> =
   Inr \<lparr>added_persisted_stop_lines = True, added_persisted_route_lines = True,
      added_persisted_crosswalks = True, added_persisted_stencils = True,
      RenderConfig = DefaultRenderConfig, IgnoredVehicles = [], DynamicLines = [],
      PersistentLines = [DebugLine (MkVector 0 0 (- 8)) (MkVector 100 0 (- 8)) (MkColor 98 183 249 255) True 8,
         DebugMesh [MkVector 0 0 0, MkVector 400 0 0, MkVector 400 300 0] [0, 1, 2]
           (MkColor 206 131 63 255) True]\<rparr>"
  using persisted_flags_gate
    [of "\<lparr>added_persisted_stop_lines = False, added_persisted_route_lines = False,
      added_persisted_crosswalks = False, added_persisted_stencils = False,
      RenderConfig = DefaultRenderConfig, IgnoredVehicles = [], DynamicLines = [],
      PersistentLines = []\<rparr>"
        "\<lparr>DedicatedServer = False, ActorRegistry = [], MeshComponents = [],
      TrafficLights = [],
      RoadSplines = [],
      carla_game_mode = None\<rparr>"
        "\<lparr>Contains = (\<lambda>name part. False),
      ToFVector = (\<lambda>p. case p of Location a b c \<Rightarrow> MkVector a b c),
      RotateVector = (\<lambda>q v. v)\<rparr>"
        "\<lparr>added_persisted_stop_lines = True, added_persisted_route_lines = False,
      added_persisted_crosswalks = False, added_persisted_stencils = False,
      RenderConfig = DefaultRenderConfig, IgnoredVehicles = [], DynamicLines = [],
      PersistentLines = []\<rparr>"]
    persisted_flags_gate
    [of "\<lparr>added_persisted_stop_lines = True, added_persisted_route_lines = True,
      added_persisted_crosswalks = True, added_persisted_stencils = True,
      RenderConfig = DefaultRenderConfig, IgnoredVehicles = [], DynamicLines = [],
      PersistentLines = [DebugLine (MkVector 0 0 (- 8)) (MkVector 100 0 (- 8)) (MkColor 98 183 249 255) True 8,
         DebugMesh [MkVector 0 0 0, MkVector 400 0 0, MkVector 400 300 0] [0, 1, 2]
           (MkColor 206 131 63 255) True]\<rparr>"
        "\<lparr>DedicatedServer = False, ActorRegistry = [], MeshComponents = [],
      TrafficLights = [\<lparr>TrafficLightRef = 1,
         BoxComponent = Some \<lparr>BoxLocation = MkVector 0 0 0, ScaledBoxExtent = MkVector 100 50 40,
           ForwardVector = MkVector 1 0 0, RightVector = MkVector 0 1 0\<rparr>\<rparr>],
      RoadSplines = [\<lparr>RoadID = 3, LaneID = - 2, BoundaryType = Driving, OrientationType = Right,
          bIsJunction = False, SplinePoints = [MkVector 0 0 0, MkVector 100 0 0]\<rparr>,
         \<lparr>RoadID = 3, LaneID = - 1, BoundaryType = Driving, OrientationType = Right,
          bIsJunction = False, SplinePoints = [MkVector 0 350 0, MkVector 100 350 0]\<rparr>],
      carla_game_mode = Some \<lparr>GetAllCrosswalkZones =
                 [Location 0 0 0, Location 4 0 0, Location 4 3 0, Location 0 0 0],
               GetStencils = []\<rparr>\<rparr>"
        "\<lparr>Contains = (\<lambda>name part. False),
      ToFVector = (\<lambda>p. case p of Location a b c \<Rightarrow> MkVector a b c),
      RotateVector = (\<lambda>q v. v)\<rparr>"
        "\<lparr>added_persisted_stop_lines = True, added_persisted_route_lines = True,
      added_persisted_crosswalks = True, added_persisted_stencils = True,
      RenderConfig = DefaultRenderConfig, IgnoredVehicles = [], DynamicLines = [],
      PersistentLines = [DebugLine (MkVector 0 0 (- 8)) (MkVector 100 0 (- 8)) (MkColor 98 183 249 255) True 8,
         DebugMesh [MkVector 0 0 0, MkVector 400 0 0, MkVector 400 300 0] [0, 1, 2]
           (MkColor 206 131 63 255) True]\<rparr>"]
  by (simp add: RunTicks.simps PostPhysTick_def DynamicObjects_def StopLines_def RouteLines_def
        Crosswalks_def Stencils_def Draw_def DrawRouteLines_def SplinesByRoadId_def DrawRoad_def
        ShouldRender_def found_splines_def NeighbourLaneID_def RightRule_def DrawSpline_def
        CrosswalkPolygons_def ClosePolygon_def TriangleFan_def DrawStencils_def StopLine_def
        vscale_def vadd_def vsub_def MkVector_def MkColor_def DefaultRenderConfig_def)

text \<open>
  The claim as stated fails: a first tick in a world without road splines and without a
  game mode sets the stop-line flag only; a second tick in a world that has them draws
  the lane line and the crosswalk and sets the three other flags. The stop line of the
  traffic light that appeared with them is not drawn.
\<close>

theorem flags_not_set_counterexample:
  "RunTicks
     \<lparr>Contains = (\<lambda>name part. False),
      ToFVector = (\<lambda>p. case p of Location a b c \<Rightarrow> MkVector a b c),
      RotateVector = (\<lambda>q v. v)\<rparr>
     [\<lparr>DedicatedServer = False, ActorRegistry = [], MeshComponents = [],
      TrafficLights = [],
      RoadSplines = [],
      carla_game_mode = None\<rparr>]
     \<lparr>added_persisted_stop_lines = False, added_persisted_route_lines = False,
      added_persisted_crosswalks = False, added_persisted_stencils = False,
      RenderConfig = DefaultRenderConfig, IgnoredVehicles = [], DynamicLines = [],
      PersistentLines = []\<rparr> =
   Inr \<lparr>added_persisted_stop_lines = True, added_persisted_route_lines = False,
      added_persisted_crosswalks = False, added_persisted_stencils = False,
      RenderConfig = DefaultRenderConfig, IgnoredVehicles = [], DynamicLines = [],
      PersistentLines = []\<rparr> \<and>
   RunTicks
     \<lparr>Contains = (\<lambda>name part. False),
      ToFVector = (\<lambda>p. case p of Location a b c \<Rightarrow> MkVector a b c),
      RotateVector = (\<lambda>q v. v)\<rparr>
     [\<lparr>DedicatedServer = False, ActorRegistry = [], MeshComponents = [],
      TrafficLights = [],
      RoadSplines = [],
      carla_game_mode = None\<rparr>,
      \<lparr>DedicatedServer = False, ActorRegistry = [], MeshComponents = [],
      TrafficLights = [\<lparr>TrafficLightRef = 1,
         BoxComponent = Some \<lparr>BoxLocation = MkVector 0 0 0, ScaledBoxExtent = MkVector 100 50 40,
           ForwardVector = MkVector 1 0 0, RightVector = MkVector 0 1 0\<rparr>\<rparr>],
      RoadSplines = [\<lparr>RoadID = 3, LaneID = - 2, BoundaryType = Driving, OrientationType = Right,
          bIsJunction = False, SplinePoints = [MkVector 0 0 0, MkVector 100 0 0]\<rparr>,
         \<lparr>RoadID = 3, LaneID = - 1, BoundaryType = Driving, OrientationType = Right,
          bIsJunction = False, SplinePoints = [MkVector 0 350 0, MkVector 100 350 0]\<rparr>],
      carla_game_mode = Some \<lparr>GetAllCrosswalkZones =
                 [Location 0 0 0, Location 4 0 0, Location 4 3 0, Location 0 0 0],
               GetStencils = []\<rparr>\<rparr>]
     \<lparr>added_persisted_stop_lines = False, added_persisted_route_lines = False,
      added_persisted_crosswalks = False, added_persisted_stencils = False,
      RenderConfig = DefaultRenderConfig, IgnoredVehicles = [], DynamicLines = [],
      PersistentLines = []\<rparr> =
   Inr \<lparr>added_persisted_stop_lines = True, added_persisted_route_lines = True,
      added_persisted_crosswalks = True, added_persisted_stencils = True,
      RenderConfig = DefaultRenderConfig, IgnoredVehicles = [], DynamicLines = [],
      PersistentLines = [DebugLine (MkVector 0 0 (- 8)) (MkVector 100 0 (- 8)) (MkColor 98 183 249 255) True 8,
         DebugMesh [MkVector 0 0 0, MkVector 400 0 0, MkVector 400 300 0] [0, 1, 2]
           (MkColor 206 131 63 255) True]\<rparr>"
  by (simp add: RunTicks.simps PostPhysTick_def DynamicObjects_def StopLines_def RouteLines_def
        Crosswalks_def Stencils_def Draw_def DrawRouteLines_def SplinesByRoadId_def DrawRoad_def
        ShouldRender_def found_splines_def NeighbourLaneID_def RightRule_def DrawSpline_def
        CrosswalkPolygons_def ClosePolygon_def TriangleFan_def DrawStencils_def StopLine_def
        vscale_def vadd_def vsub_def MkVector_def MkColor_def DefaultRenderConfig_def)

lemma StopLinesLoop_null:
  "StopLinesLoop cfg (before @ \<lparr>TrafficLightRef = r, BoxComponent = None\<rparr> # after) =
     Inl NullDereference"
  by (induction before) (auto split: option.splits sum.splits)

text \<open>
  C4 (what the code does). A traffic light without a box component, anywhere in the
  list, ends the stop-line loop, and with it the first tick, in a null dereference.
\<close>

theorem missing_collider_dereferenced:
  "StopLinesLoop cfg (before @ \<lparr>TrafficLightRef = r, BoxComponent = None\<rparr> # after) =
     Inl NullDereference \<and>
   PostPhysTick E
     (w\<lparr>TrafficLights := before @ \<lparr>TrafficLightRef = r, BoxComponent = None\<rparr> # after\<rparr>)
     (s\<lparr>added_persisted_stop_lines := False\<rparr>) = Inl NullDereference"
  by (simp add: StopLinesLoop_null PostPhysTick_def StopLines_def DynamicObjects_fields)

end
